theory Spec2Isabelle
  imports Main "HOL-Library.Finite_Map"
begin

section \<open>DID-bound JWT creation and verification (\<open>src/did_jwt/__init__.py\<close>)\<close>

text \<open>
  The module creates and verifies three-segment compact tokens. Everything it does
  beyond string handling and claim checks is delegated: canonical JSON and
  \<open>pad_base64\<close> live in sibling modules, base64 and JSON parsing in the standard
  library, signing, signature verification and DID resolution in capabilities that the
  caller supplies. Those parts are parameters of the model; the code of the module
  itself is translated line by line.
\<close>

subsection \<open>Values\<close>

text \<open>
  The dynamically typed values the module handles: what \<open>json.loads\<close> returns and what
  a resolver returns. \<open>JNull\<close> is Python's \<open>None\<close>. A dict is a finite map from keys
  to values: the module never observes insertion order. Numbers are integers; floats are
  outside the model. Strings are sequences of bytes (UTF-8), in which the ASCII
  separators \<open>.\<close> and \<open>#\<close> occur exactly where they occur in the text.
\<close>

datatype json =
    JNull
  | JBool bool
  | JInt int
  | JStr string
  | JArr "json list"
  | JObj "(string, json) fmap"

type_synonym bytes = "char list"

text \<open>
  Every \<open>raise\<close> is a value. \<open>AssertionError m\<close> is a failed \<open>assert\<close> with message
  \<open>m\<close> (the empty string when the statement has none); the next four are raised by the
  interpreter on an ill-typed operation; the three decoding errors are what
  \<open>base64.urlsafe_b64decode\<close>, \<open>bytes.decode\<close> and \<open>json.loads\<close> raise;
  \<open>Propagated\<close> is whatever a capability (signer, resolver, verifier) raised, which
  the module never catches.
\<close>

datatype error =
    AssertionError string
  | AttributeError
  | TypeError
  | IndexError
  | KeyError
  | BinasciiError
  | UnicodeDecodeError
  | JSONDecodeError
  | Propagated string

text \<open>
  The encoding functions the module imports, as parameters. \<open>canonicalize\<close> (from
  \<open>.util.json_canonicalize.Canonicalize\<close>) and \<open>pad_base64\<close> (from \<open>src.util\<close>) are
  functions of sibling modules, the others are the standard library;
  \<open>urlsafe_b64encode\<close> includes the \<open>.decode("utf-8")\<close> of its ASCII output. \<open>None\<close> is
  the exception the respective function raises on input it cannot decode.
\<close>

record codec =
  canonicalize :: "json \<Rightarrow> bytes"
  urlsafe_b64encode :: "bytes \<Rightarrow> string"
  pad_base64 :: "string \<Rightarrow> string"
  urlsafe_b64decode :: "string \<Rightarrow> bytes option"
  utf8_decode :: "bytes \<Rightarrow> string option"
  json_loads :: "string \<Rightarrow> json option"

text \<open>\<open>config.get("audience")\<close>: absent, a string, or a list of strings.\<close>

datatype audience = AudStr string | AudList "string list"

record config =
  audience :: "audience option"
  resolver_settings :: json

text \<open>The calls made to the capabilities, in the order they are made.\<close>

datatype call =
    Sign string
  | Resolve json config
  | Verify string string json

record 'p decoded =
  header :: json
  payload :: 'p
  signature :: string
  data :: string

record options =
  issuer :: "json option"
  signer :: "(string \<Rightarrow> string + string) option"

subsection \<open>Python primitives\<close>

text \<open>\<open>s.split(c)\<close> for a one-character separator: never empty, \<open>"".split(".") == [""]\<close>.\<close>

fun str_split :: "char \<Rightarrow> string \<Rightarrow> string list" where
  "str_split c [] = [[]]"
| "str_split c (x # xs) =
     (if x = c then [] # str_split c xs
      else (case str_split c xs of
              [] \<Rightarrow> [[x]]
            | p # ps \<Rightarrow> (x # p) # ps))"

text \<open>\<open>s.replace("=", "")\<close>.\<close>

definition strip_padding :: "string \<Rightarrow> string" where
  "strip_padding s = filter (\<lambda>c. c \<noteq> CHR ''='') s"

text \<open>\<open>v.get(k)\<close>: only a dict has the method; a missing key gives \<open>None\<close>.\<close>

definition py_get :: "json \<Rightarrow> string \<Rightarrow> error + json" where
  "py_get v k =
     (case v of
        JObj m \<Rightarrow> (case fmlookup m k of None \<Rightarrow> Inr JNull | Some x \<Rightarrow> Inr x)
      | _ \<Rightarrow> Inl AttributeError)"

text \<open>
  \<open>v[0]\<close>: the first element of a list, the first character of a string
  (\<open>IndexError\<close> when empty); a dict, whose keys are strings, raises \<open>KeyError\<close>; no
  other value can be subscripted.
\<close>

definition py_first :: "json \<Rightarrow> error + json" where
  "py_first v =
     (case v of
        JArr xs \<Rightarrow> (case xs of [] \<Rightarrow> Inl IndexError | x # _ \<Rightarrow> Inr x)
      | JStr s \<Rightarrow> (case s of [] \<Rightarrow> Inl IndexError | c # _ \<Rightarrow> Inr (JStr [c]))
      | JObj m \<Rightarrow> Inl KeyError
      | _ \<Rightarrow> Inl TypeError)"

text \<open>\<open>v.split("#")[0]\<close>: only a string has the method.\<close>

definition py_split_first :: "json \<Rightarrow> char \<Rightarrow> error + json" where
  "py_split_first v c =
     (case v of
        JStr s \<Rightarrow> (case str_split c s of [] \<Rightarrow> Inl IndexError | p # _ \<Rightarrow> Inr (JStr p))
      | _ \<Rightarrow> Inl AttributeError)"

text \<open>The truth value of a value in a condition: \<open>if v:\<close>.\<close>

definition truthy :: "json \<Rightarrow> bool" where
  "truthy v =
     (case v of
        JNull \<Rightarrow> False
      | JBool b \<Rightarrow> b
      | JInt i \<Rightarrow> i \<noteq> 0
      | JStr s \<Rightarrow> s \<noteq> []
      | JArr xs \<Rightarrow> xs \<noteq> []
      | JObj m \<Rightarrow> m \<noteq> fmempty)"

definition aud_truthy :: "audience option \<Rightarrow> bool" where
  "aud_truthy a =
     (case a of
        None \<Rightarrow> False
      | Some (AudStr s) \<Rightarrow> s \<noteq> []
      | Some (AudList l) \<Rightarrow> l \<noteq> [])"

text \<open>
  The operand of an ordering comparison with an \<open>int\<close>: \<open>bool\<close> is a subclass of
  \<open>int\<close>, every other value raises \<open>TypeError\<close>.
\<close>

definition py_num :: "json \<Rightarrow> error + int" where
  "py_num v =
     (case v of
        JInt i \<Rightarrow> Inr i
      | JBool b \<Rightarrow> Inr (if b then 1 else 0)
      | _ \<Rightarrow> Inl TypeError)"

subsection \<open>Decoding\<close>

text \<open>
  \<open>json.loads(base64.urlsafe_b64decode(pad_base64(s)).decode("utf-8"))\<close>, the
  expression of lines 18 and 29.
\<close>

definition decode_segment :: "codec \<Rightarrow> string \<Rightarrow> error + json" where
  "decode_segment C s =
     (case urlsafe_b64decode C (pad_base64 C s) of
        None \<Rightarrow> Inl BinasciiError
      | Some b \<Rightarrow>
          (case utf8_decode C b of
             None \<Rightarrow> Inl UnicodeDecodeError
           | Some t \<Rightarrow>
               (case json_loads C t of
                  None \<Rightarrow> Inl JSONDecodeError
                | Some v \<Rightarrow> Inr v)))"

text \<open>
  \<^verbatim>\<open>
  def decode_jws(jws):
      parts = jws.split(".")
      assert len(parts) == 3
      return {
          "header": json.loads(base64.urlsafe_b64decode(pad_base64(parts[0])).decode("utf-8")),
          "payload": parts[1],
          "signature": parts[2],
          "data": f"{parts[0]}.{parts[1]}"
      }
  \<close>
\<close>

definition decode_jws :: "codec \<Rightarrow> string \<Rightarrow> error + string decoded" where
  "decode_jws C jws =
     (case str_split CHR ''.'' jws of
        [p0, p1, p2] \<Rightarrow>
          (case decode_segment C p0 of
             Inl e \<Rightarrow> Inl e
           | Inr h \<Rightarrow>
               Inr \<lparr>header = h, payload = p1, signature = p2, data = p0 @ ''.'' @ p1\<rparr>)
      | _ \<Rightarrow> Inl (AssertionError ''''))"

text \<open>
  \<^verbatim>\<open>
  def decode_jwt(jwt):
      jws = decode_jws(jwt)
      decoded_jwt = {
          "header": jws["header"],
          "payload": json.loads(base64.urlsafe_b64decode(pad_base64(jws["payload"])).decode("utf-8")),
          "signature": jws["signature"],
          "data": jws["data"]
      }
      return decoded_jwt
  \<close>
\<close>

definition decode_jwt :: "codec \<Rightarrow> string \<Rightarrow> error + json decoded" where
  "decode_jwt C jwt =
     (case decode_jws C jwt of
        Inl e \<Rightarrow> Inl e
      | Inr jws \<Rightarrow>
          (case decode_segment C (payload jws) of
             Inl e \<Rightarrow> Inl e
           | Inr p \<Rightarrow>
               Inr \<lparr>header = header jws, payload = p,
                    signature = signature jws, data = data jws\<rparr>))"

subsection \<open>Creation\<close>

text \<open>
  \<open>base64.urlsafe_b64encode(canonicalize(v)).decode("utf-8").replace("=", "")\<close>, the
  expression of lines 52 and 55.
\<close>

definition encode_segment :: "codec \<Rightarrow> json \<Rightarrow> string" where
  "encode_segment C v = strip_padding (urlsafe_b64encode C (canonicalize C v))"

text \<open>
  \<^verbatim>\<open>
  async def create_jws(payload, signer, header) -> str:
      encoded_payload = base64.urlsafe_b64encode(
          canonicalize(payload)).decode("utf-8").replace("=", "")
      encoded_header = base64.urlsafe_b64encode(
          canonicalize(header)).decode("utf-8").replace("=", "")
      signing_input = ".".join([encoded_header, encoded_payload])
      signature = await signer(signing_input)
      signature = signature.replace("=", "")
      return ".".join([signing_input, signature])
  \<close>
  The result is the list of calls made to the signer and what the function returns or
  raises.
\<close>

definition create_jws ::
  "codec \<Rightarrow> json \<Rightarrow> (string \<Rightarrow> string + string) \<Rightarrow> json \<Rightarrow> call list \<times> (error + string)"
where
  "create_jws C pl sign hdr =
     (let encoded_payload = encode_segment C pl;
          encoded_header = encode_segment C hdr;
          signing_input = encoded_header @ ''.'' @ encoded_payload
      in case sign signing_input of
           Inl x \<Rightarrow> ([Sign signing_input], Inl (Propagated x))
         | Inr sg \<Rightarrow>
             ([Sign signing_input], Inr (signing_input @ ''.'' @ strip_padding sg)))"

text \<open>
  \<^verbatim>\<open>
  async def create_jwt(payload, options, header) -> str:
      EXPIRATION_TIME = 300
      iat = int(time.time())
      timestamps = {
          "iat": iat,
          "exp": iat + EXPIRATION_TIME
      }
      full_payload = {**timestamps, **payload, "iss": options["issuer"]}
      return await create_jws(full_payload, options["signer"], header)
  \<close>
  The clock reading \<open>int(time.time())\<close> is the parameter \<open>now\<close>; a subscript of
  \<open>options\<close> with a key it does not have raises \<open>KeyError\<close>.
\<close>

definition EXPIRATION_TIME :: int where
  "EXPIRATION_TIME = 300"

text \<open>\<open>{"iat": iat, "exp": iat + EXPIRATION_TIME}\<close>.\<close>

definition timestamps :: "int \<Rightarrow> (string, json) fmap" where
  "timestamps iat =
     fmupd ''exp'' (JInt (iat + EXPIRATION_TIME)) (fmupd ''iat'' (JInt iat) fmempty)"

text \<open>\<open>{**timestamps, **payload, "iss": options["issuer"]}\<close>: later entries win.\<close>

definition full_payload :: "int \<Rightarrow> (string, json) fmap \<Rightarrow> json \<Rightarrow> (string, json) fmap" where
  "full_payload iat pl iss = fmupd ''iss'' iss (timestamps iat ++\<^sub>f pl)"

definition create_jwt ::
  "codec \<Rightarrow> int \<Rightarrow> (string, json) fmap \<Rightarrow> options \<Rightarrow> json \<Rightarrow> call list \<times> (error + string)"
where
  "create_jwt C now pl opts hdr =
     (case issuer opts of
        None \<Rightarrow> ([], Inl KeyError)
      | Some iss \<Rightarrow>
          (case signer opts of
             None \<Rightarrow> ([], Inl KeyError)
           | Some sign \<Rightarrow> create_jws C (JObj (full_payload now pl iss)) sign hdr))"

subsection \<open>Verification\<close>

text \<open>
  Lines 102 to 119, the DID whose document authenticates the token:
  \<^verbatim>\<open>
      assert payload.get("iss") is not None, "Missing issuer"
      did = None
      if(payload.get("iss") == "https://self-issued.me/v2"):
          assert payload.get("sub") is not None, "Missing subject"
          if (payload.get("sub_jwk") is None):
              did = payload.get("sub")
          else:
              did = header.get("kid").split("#")[0]
      else:
          did = payload.get("iss")
  \<close>
\<close>

definition subject_did :: "json \<Rightarrow> json \<Rightarrow> error + json" where
  "subject_did pl hdr =
     (case py_get pl ''iss'' of
        Inl e \<Rightarrow> Inl e
      | Inr iss \<Rightarrow>
          if iss = JNull then Inl (AssertionError ''Missing issuer'')
          else if iss = JStr ''https://self-issued.me/v2'' then
            (case py_get pl ''sub'' of
               Inl e \<Rightarrow> Inl e
             | Inr sub \<Rightarrow>
                 if sub = JNull then Inl (AssertionError ''Missing subject'')
                 else
                   (case py_get pl ''sub_jwk'' of
                      Inl e \<Rightarrow> Inl e
                    | Inr sub_jwk \<Rightarrow>
                        if sub_jwk = JNull then py_get pl ''sub''
                        else
                          (case py_get hdr ''kid'' of
                             Inl e \<Rightarrow> Inl e
                           | Inr kid \<Rightarrow> py_split_first kid CHR ''#'')))
          else py_get pl ''iss'')"

text \<open>
  Lines 123 to 125:
  \<^verbatim>\<open>
      # FIXME: Only the first verification method is used to verify the signature.
      authenticator = did_resolution_result.get(
          "didDocument").get("verificationMethod")[0]
  \<close>
\<close>

definition first_verification_method :: "json \<Rightarrow> error + json" where
  "first_verification_method r =
     (case py_get r ''didDocument'' of
        Inl e \<Rightarrow> Inl e
      | Inr doc \<Rightarrow>
          (case py_get doc ''verificationMethod'' of
             Inl e \<Rightarrow> Inl e
           | Inr ms \<Rightarrow> py_first ms))"

definition skew_time :: int where
  "skew_time = 300"

text \<open>
  Lines 132 to 148, with the clock reading \<open>math.floor(time.time())\<close> as the parameter
  \<open>now\<close>:
  \<^verbatim>\<open>
      skew_time = 300
      now = math.floor(time.time())
      now_skewed = now + skew_time
      exp = payload.get("exp")
      assert exp is not None, "Missing expiration time"
      iat = payload.get("iat")
      assert iat is not None, "Missing issue time"
      assert (iat > now_skewed) == False, "Issue time is in the future"
      assert (exp <= now - skew_time) == False, "Expired JWT"
  \<close>
\<close>

definition check_times :: "json \<Rightarrow> int \<Rightarrow> error + unit" where
  "check_times pl now =
     (let now_skewed = now + skew_time in
      case py_get pl ''exp'' of
        Inl e \<Rightarrow> Inl e
      | Inr exp \<Rightarrow>
          if exp = JNull then Inl (AssertionError ''Missing expiration time'')
          else
            (case py_get pl ''iat'' of
               Inl e \<Rightarrow> Inl e
             | Inr iat \<Rightarrow>
                 if iat = JNull then Inl (AssertionError ''Missing issue time'')
                 else
                   (case py_num iat of
                      Inl e \<Rightarrow> Inl e
                    | Inr i \<Rightarrow>
                        if i > now_skewed
                        then Inl (AssertionError ''Issue time is in the future'')
                        else
                          (case py_num exp of
                             Inl e \<Rightarrow> Inl e
                           | Inr x \<Rightarrow>
                               if x \<le> now - skew_time
                               then Inl (AssertionError ''Expired JWT'')
                               else Inr ()))))"

text \<open>
  Lines 150 to 157:
  \<^verbatim>\<open>
      audience = config.get("audience")
      if payload.get("aud"):
          if audience:
              if isinstance(audience, list):
                  assert payload.get("aud") in audience, "Invalid audience"
              else:
                  assert payload.get("aud") == audience, "Invalid audience"
  \<close>
  A value equals a string, or one of a list of strings, exactly when it is that string.
\<close>

definition check_audience :: "json \<Rightarrow> audience option \<Rightarrow> error + unit" where
  "check_audience pl a =
     (case py_get pl ''aud'' of
        Inl e \<Rightarrow> Inl e
      | Inr aud \<Rightarrow>
          if truthy aud then
            if aud_truthy a then
              (case a of
                 Some (AudList l) \<Rightarrow>
                   if aud \<in> JStr ` set l then Inr ()
                   else Inl (AssertionError ''Invalid audience'')
               | Some (AudStr s) \<Rightarrow>
                   if aud = JStr s then Inr ()
                   else Inl (AssertionError ''Invalid audience'')
               | None \<Rightarrow> Inr ())
            else Inr ()
          else Inr ())"

type_synonym verified = "json \<times> json \<times> json \<times> json \<times> string"

text \<open>
  \<open>verify_jwt\<close>, with the imported \<open>resolve\<close> and \<open>verify_ES256K\<close> and the clock
  reading as parameters. Around the four excerpts above it reads:
  \<^verbatim>\<open>
  async def verify_jwt(jwt, config):
      decoded_jwt = decode_jwt(jwt)
      payload = decoded_jwt["payload"]
      header = decoded_jwt["header"]
      signature = decoded_jwt["signature"]
      data = decoded_jwt["data"]
      ...
      did_resolution_result = await resolve(did, config)
      ...
      verify = await verify_ES256K(data, signature, authenticator)
      assert verify, "Signature verification failed"
      ...
      return payload, did_resolution_result, did, authenticator, jwt
  \<close>
  The result is the list of calls made to the resolver and the verifier and what the
  function returns or raises.
\<close>

definition verify_jwt ::
  "codec \<Rightarrow> (json \<Rightarrow> config \<Rightarrow> string + json) \<Rightarrow> (string \<Rightarrow> string \<Rightarrow> json \<Rightarrow> string + bool)
     \<Rightarrow> int \<Rightarrow> string \<Rightarrow> config \<Rightarrow> call list \<times> (error + verified)"
where
  "verify_jwt C resolve verify_ES256K now jwt cfg =
     (case decode_jwt C jwt of
        Inl e \<Rightarrow> ([], Inl e)
      | Inr d \<Rightarrow>
          (case subject_did (payload d) (header d) of
             Inl e \<Rightarrow> ([], Inl e)
           | Inr did \<Rightarrow>
               (case resolve did cfg of
                  Inl x \<Rightarrow> ([Resolve did cfg], Inl (Propagated x))
                | Inr r \<Rightarrow>
                    (case first_verification_method r of
                       Inl e \<Rightarrow> ([Resolve did cfg], Inl e)
                     | Inr authenticator \<Rightarrow>
                         (let calls = [Resolve did cfg,
                                       Verify (data d) (signature d) authenticator]
                          in case verify_ES256K (data d) (signature d) authenticator of
                               Inl x \<Rightarrow> (calls, Inl (Propagated x))
                             | Inr ok \<Rightarrow>
                                 if \<not> ok
                                 then (calls, Inl (AssertionError ''Signature verification failed''))
                                 else
                                   (case check_times (payload d) now of
                                      Inl e \<Rightarrow> (calls, Inl e)
                                    | Inr _ \<Rightarrow>
                                        (case check_audience (payload d) (audience cfg) of
                                           Inl e \<Rightarrow> (calls, Inl e)
                                         | Inr _ \<Rightarrow>
                                             (calls,
                                              Inr (payload d, r, did, authenticator, jwt)))))))))"

subsection \<open>Stand-ins for the capabilities\<close>

text \<open>
  Deterministic stand-ins, used only to run the functions above on concrete tokens.
  The codec decodes the segment \<open>h\<close> to a given header and the segment \<open>p\<close> to a
  given payload and nothing else, and encodes a value with an \<open>alg\<close> entry as \<open>h\<close>
  and any other value as \<open>p\<close>. The resolver returns a given resolution result for
  every DID, the verifier accepts exactly the signature \<open>sig\<close>, the signer returns it
  with one padding character.
\<close>

definition example_codec :: "json \<Rightarrow> json \<Rightarrow> codec" where
  "example_codec hdr pl =
     \<lparr>canonicalize = (\<lambda>v. if py_get v ''alg'' = Inr JNull then ''p'' else ''h''),
      urlsafe_b64encode = (\<lambda>b. b),
      pad_base64 = (\<lambda>s. s),
      urlsafe_b64decode = (\<lambda>s. Some s),
      utf8_decode = (\<lambda>b. Some b),
      json_loads = (\<lambda>t. if t = ''h'' then Some hdr else if t = ''p'' then Some pl else None)\<rparr>"

definition example_resolve :: "json \<Rightarrow> json \<Rightarrow> config \<Rightarrow> string + json" where
  "example_resolve r did cfg = Inr r"

definition example_verify :: "string \<Rightarrow> string \<Rightarrow> json \<Rightarrow> string + bool" where
  "example_verify d s a = Inr (s = ''sig'')"

definition example_sign :: "string \<Rightarrow> string + string" where
  "example_sign d = Inr ''sig=''"

definition resolution_result :: "json list \<Rightarrow> json" where
  "resolution_result ms =
     JObj (fmupd ''didDocument''
             (JObj (fmupd ''verificationMethod'' (JArr ms) fmempty)) fmempty)"

definition claims :: "json \<Rightarrow> int \<Rightarrow> int \<Rightarrow> (string, json) fmap" where
  "claims iss iat exp =
     fmupd ''iss'' iss (fmupd ''iat'' (JInt iat) (fmupd ''exp'' (JInt exp) fmempty))"

definition no_audience :: config where
  "no_audience = \<lparr>audience = None, resolver_settings = JNull\<rparr>"

text \<open>Concrete headers, payloads and configurations for the runs below.\<close>

definition example_header :: json where
  "example_header = JObj (fmupd ''alg'' (JStr ''ES256K'') (fmupd ''typ'' (JStr ''JWT'') fmempty))"

definition self_issued :: "(string, json) fmap" where
  "self_issued =
     fmupd ''sub'' (JStr ''did:x:1'') (claims (JStr ''https://self-issued.me/v2'') 1000 1300)"

definition with_aud :: "json \<Rightarrow> (string, json) fmap" where
  "with_aud aud = fmupd ''aud'' aud (claims (JStr ''did:ebsi:issuer'') 1000 1300)"

definition expects :: "audience \<Rightarrow> config" where
  "expects a = \<lparr>audience = Some a, resolver_settings = JNull\<rparr>"

definition example_decoded :: "json \<Rightarrow> json decoded" where
  "example_decoded aud =
     \<lparr>header = example_header, payload = JObj (with_aud aud), signature = ''sig'',
      data = ''h.p''\<rparr>"

section \<open>Properties\<close>

subsection \<open>Splitting and decoding\<close>

lemma str_split_not_Nil: "str_split c s \<noteq> []"
  by (induction s) (auto split: list.splits)



lemma str_split_hd: "str_split c s = p # ps \<Longrightarrow> p = takeWhile (\<lambda>x. x \<noteq> c) s"
  by (induction s arbitrary: p ps) (auto simp: str_split_not_Nil split: if_splits list.splits)


lemma py_split_first_str:
  "py_split_first (JStr k) c = Inr (JStr (takeWhile (\<lambda>x. x \<noteq> c) k))"
proof (cases "str_split c k")
  case Nil
  then show ?thesis by (simp add: str_split_not_Nil)
next
  case (Cons p ps)
  then show ?thesis
    using str_split_hd [OF Cons] by (simp add: py_split_first_def)
qed


lemma decode_jwt_Inr:
  assumes "decode_jwt C jwt = Inr d"
  shows "\<exists>p0 p1. str_split CHR ''.'' jwt = [p0, p1, signature d] \<and> data d = p0 @ ''.'' @ p1
           \<and> decode_segment C p0 = Inr (header d) \<and> decode_segment C p1 = Inr (payload d)"
  using assms
  by (auto simp: decode_jwt_def decode_jws_def split: list.splits sum.splits)




subsection \<open>What each step of the verification can raise\<close>

lemma py_get_errors: "py_get v k = Inl e \<Longrightarrow> e = AttributeError"
  by (auto simp: py_get_def split: json.splits option.splits)

lemma py_split_first_errors: "py_split_first v c = Inl e \<Longrightarrow> e = AttributeError"
  by (auto simp: py_split_first_def str_split_not_Nil split: json.splits list.splits)

lemma py_first_errors: "py_first v = Inl e \<Longrightarrow> e \<in> {IndexError, KeyError, TypeError}"
  by (auto simp: py_first_def split: json.splits list.splits)

lemma py_num_errors: "py_num v = Inl e \<Longrightarrow> e = TypeError"
  by (auto simp: py_num_def split: json.splits)

lemma subject_did_errors:
  "subject_did p h = Inl e \<Longrightarrow>
     e \<in> {AssertionError ''Missing issuer'', AssertionError ''Missing subject'', AttributeError}"
  by (auto simp: subject_did_def split: sum.splits if_splits
           dest: py_get_errors py_split_first_errors)

lemma first_verification_method_errors:
  "first_verification_method r = Inl e \<Longrightarrow>
     e \<in> {AttributeError, IndexError, KeyError, TypeError}"
  by (auto simp: first_verification_method_def split: sum.splits
           dest: py_get_errors py_first_errors)

lemma check_times_errors:
  "check_times p now = Inl e \<Longrightarrow>
     e \<in> {AssertionError ''Missing expiration time'', AssertionError ''Missing issue time'',
          AssertionError ''Issue time is in the future'', AssertionError ''Expired JWT'',
          TypeError, AttributeError}"
  by (auto simp: check_times_def Let_def split: sum.splits if_splits
           dest: py_get_errors py_num_errors)


lemma verify_jwt_Inl:
  assumes "snd (verify_jwt C resolve verify_ES256K now jwt cfg) = Inl e"
  shows "decode_jwt C jwt = Inl e
       \<or> (\<exists>d. decode_jwt C jwt = Inr d \<and>
            (subject_did (payload d) (header d) = Inl e
             \<or> (\<exists>x. e = Propagated x)
             \<or> (\<exists>r. first_verification_method r = Inl e)
             \<or> e = AssertionError ''Signature verification failed''
             \<or> check_times (payload d) now = Inl e
             \<or> check_audience (payload d) (audience cfg) = Inl e))"
  using assms
  by (auto simp: verify_jwt_def Let_def split: sum.splits if_splits)

lemma first_verification_method_IndexError:
  "first_verification_method r = Inl IndexError \<longleftrightarrow>
     (\<exists>doc. py_get r ''didDocument'' = Inr doc
        \<and> (py_get doc ''verificationMethod'' = Inr (JArr [])
           \<or> py_get doc ''verificationMethod'' = Inr (JStr [])))"
proof -
  have 1: "py_first v = Inl IndexError \<longleftrightarrow> v = JArr [] \<or> v = JStr []" for v
    by (auto simp: py_first_def split: json.splits list.splits)
  show ?thesis
    by (auto simp: first_verification_method_def 1 split: sum.splits dest: py_get_errors)
qed


subsection \<open>The steps of the verification in sequence\<close>


lemma verify_jwt_did_error:
  assumes "decode_jwt C jwt = Inr d" and "subject_did (payload d) (header d) = Inl e"
  shows "verify_jwt C resolve verify_ES256K now jwt cfg = ([], Inl e)"
  using assms by (simp add: verify_jwt_def)

lemma verify_jwt_first_call:
  assumes "decode_jwt C jwt = Inr d" and "subject_did (payload d) (header d) = Inr did"
  shows "\<exists>rest. fst (verify_jwt C resolve verify_ES256K now jwt cfg) = Resolve did cfg # rest"
  using assms by (simp add: verify_jwt_def Let_def split: sum.splits)

lemma verify_jwt_calls:
  "fst (verify_jwt C resolve verify_ES256K now jwt cfg) = []
   \<or> (\<exists>d did. decode_jwt C jwt = Inr d \<and> subject_did (payload d) (header d) = Inr did
         \<and> (fst (verify_jwt C resolve verify_ES256K now jwt cfg) = [Resolve did cfg]
            \<or> (\<exists>r a. resolve did cfg = Inr r \<and> first_verification_method r = Inr a
                  \<and> fst (verify_jwt C resolve verify_ES256K now jwt cfg)
                      = [Resolve did cfg, Verify (data d) (signature d) a])))"
  by (auto simp: verify_jwt_def Let_def split: sum.splits if_splits)

lemma verify_jwt_validation:
  assumes "decode_jwt C jwt = Inr d"
    and "subject_did (payload d) (header d) = Inr did"
    and "resolve did cfg = Inr r"
    and "first_verification_method r = Inr a"
    and "verify_ES256K (data d) (signature d) a = Inr True"
  shows "verify_jwt C resolve verify_ES256K now jwt cfg =
           ([Resolve did cfg, Verify (data d) (signature d) a],
            case check_times (payload d) now of
              Inl e \<Rightarrow> Inl e
            | Inr _ \<Rightarrow>
                (case check_audience (payload d) (audience cfg) of
                   Inl e \<Rightarrow> Inl e
                 | Inr _ \<Rightarrow> Inr (payload d, r, did, a, jwt)))"
  using assms by (simp add: verify_jwt_def Let_def split: sum.splits)

lemma subject_did_eq:
  assumes "py_get pl ''iss'' = Inr iss"
    and "py_get pl ''sub'' = Inr sub"
    and "py_get pl ''sub_jwk'' = Inr sub_jwk"
  shows "subject_did pl hdr =
           (if iss = JNull then Inl (AssertionError ''Missing issuer'')
            else if iss \<noteq> JStr ''https://self-issued.me/v2'' then Inr iss
            else if sub = JNull then Inl (AssertionError ''Missing subject'')
            else if sub_jwk = JNull then Inr sub
            else (case py_get hdr ''kid'' of
                    Inl e \<Rightarrow> Inl e
                  | Inr kid \<Rightarrow> py_split_first kid CHR ''#''))"
  by (simp add: subject_did_def assms)

lemma check_times_numbers:
  assumes "py_get pl ''iat'' = Inr vi" and "py_num vi = Inr i"
    and "py_get pl ''exp'' = Inr vx" and "py_num vx = Inr x"
  shows "check_times pl now =
           (if i > now + 300 then Inl (AssertionError ''Issue time is in the future'')
            else if x \<le> now - 300 then Inl (AssertionError ''Expired JWT'')
            else Inr ())"
proof -
  have "vi \<noteq> JNull" "vx \<noteq> JNull"
    using assms(2,4) by (auto simp: py_num_def)
  then show ?thesis
    using assms by (simp add: check_times_def skew_time_def Let_def)
qed

lemma check_audience_eq:
  assumes "py_get pl ''aud'' = Inr aud"
  shows "check_audience pl ac =
           (case ac of
              None \<Rightarrow> Inr ()
            | Some (AudStr s) \<Rightarrow>
                if truthy aud \<and> s \<noteq> [] \<and> aud \<noteq> JStr s
                then Inl (AssertionError ''Invalid audience'') else Inr ()
            | Some (AudList l) \<Rightarrow>
                if truthy aud \<and> l \<noteq> [] \<and> aud \<notin> JStr ` set l
                then Inl (AssertionError ''Invalid audience'') else Inr ())"
  using assms
  by (simp add: check_audience_def aud_truthy_def split: option.splits audience.splits)

lemma check_audience_falsy:
  assumes "py_get pl ''aud'' = Inr aud" and "\<not> truthy aud"
  shows "check_audience pl ac = Inr ()"
  using assms by (simp add: check_audience_def)

subsection \<open>Merging the claims and building the token\<close>

lemma full_payload_lookup:
  "fmlookup (full_payload now pl iss) k =
     (if k = ''iss'' then Some iss
      else if k |\<in>| fmdom pl then fmlookup pl k
      else if k = ''iat'' then Some (JInt now)
      else if k = ''exp'' then Some (JInt (now + 300))
      else None)"
  by (simp add: full_payload_def timestamps_def EXPIRATION_TIME_def)


lemma create_jws_eq:
  "create_jws C pl sign hdr =
     ([Sign (encode_segment C hdr @ ''.'' @ encode_segment C pl)],
      case sign (encode_segment C hdr @ ''.'' @ encode_segment C pl) of
        Inl x \<Rightarrow> Inl (Propagated x)
      | Inr sg \<Rightarrow>
          Inr ((encode_segment C hdr @ ''.'' @ encode_segment C pl) @ ''.'' @ strip_padding sg))"
  by (simp add: create_jws_def Let_def split: sum.splits)

subsection \<open>Runs with the stand-ins\<close>

lemma example_decode:
  "decode_jwt (example_codec h p) ''h.p.sig'' =
     Inr \<lparr>header = h, payload = p, signature = ''sig'', data = ''h.p''\<rparr>"
  by (simp add: decode_jwt_def decode_jws_def decode_segment_def example_codec_def)

lemma example_first_method:
  "first_verification_method (resolution_result (m # ms)) = Inr m"
  by (simp add: first_verification_method_def resolution_result_def py_get_def py_first_def)

lemma example_issuer_did:
  assumes "fmlookup m ''iss'' = Some (JStr i)" and "i \<noteq> []"
    and "i \<noteq> ''https://self-issued.me/v2''"
  shows "subject_did (JObj m) h = Inr (JStr i)"
  using assms by (simp add: subject_did_def py_get_def)

lemma example_stages:
  fixes cfg :: config
  shows "decode_jwt (example_codec example_header (JObj (with_aud aud))) ''h.p.sig''
           = Inr (example_decoded aud)"
    and "subject_did (payload (example_decoded aud)) (header (example_decoded aud))
           = Inr (JStr ''did:ebsi:issuer'')"
    and "example_resolve (resolution_result [JStr ''key-1'']) (JStr ''did:ebsi:issuer'') cfg
           = Inr (resolution_result [JStr ''key-1''])"
    and "first_verification_method (resolution_result [JStr ''key-1'']) = Inr (JStr ''key-1'')"
    and "example_verify (data (example_decoded aud)) (signature (example_decoded aud)) (JStr ''key-1'')
           = Inr True"
    and "check_times (payload (example_decoded aud)) 1000 = Inr ()"
    and "py_get (payload (example_decoded aud)) ''aud'' = Inr aud"
  by (simp_all add: example_decoded_def example_decode example_issuer_did example_resolve_def example_first_method
                    example_verify_def with_aud_def claims_def check_times_def py_get_def
                    py_num_def skew_time_def)

section \<open>The claims\<close>

subsection \<open>Round trip of the payload\<close>



subsection \<open>Temporal validation\<close>

text \<open>
  C2. A token that passed the signature check, and whose \<open>iat\<close> and \<open>exp\<close> claims are
  numbers, is rejected with "Issue time is in the future" exactly when
  \<open>iat > now + 300\<close>; otherwise it is rejected with "Expired JWT" exactly when
  \<open>exp \<le> now - 300\<close>, equality included; otherwise the temporal checks pass and the
  outcome is that of the audience check. So \<open>exp = now - 300\<close> is expired and
  \<open>exp = now - 299\<close> is not, \<open>iat = now + 301\<close> is in the future and
  \<open>iat = now + 300\<close> is not.
\<close>

theorem temporal_validation:
  assumes "decode_jwt C jwt = Inr d"
    and "subject_did (payload d) (header d) = Inr did"
    and "resolve did cfg = Inr r"
    and "first_verification_method r = Inr a"
    and "verify_ES256K (data d) (signature d) a = Inr True"
    and "py_get (payload d) ''iat'' = Inr vi" and "py_num vi = Inr i"
    and "py_get (payload d) ''exp'' = Inr vx" and "py_num vx = Inr x"
  shows "snd (verify_jwt C resolve verify_ES256K now jwt cfg) =
           (if i > now + 300 then Inl (AssertionError ''Issue time is in the future'')
            else if x \<le> now - 300 then Inl (AssertionError ''Expired JWT'')
            else (case check_audience (payload d) (audience cfg) of
                    Inl e \<Rightarrow> Inl e
                  | Inr _ \<Rightarrow> Inr (payload d, r, did, a, jwt)))"
  using verify_jwt_validation
          [where resolve = resolve and verify_ES256K = verify_ES256K, OF assms(1-5), of now]
  by (simp add: check_times_numbers [OF assms(6-9)])

theorem temporal_validation_witness:
  "snd (verify_jwt (example_codec JNull (JObj (claims (JStr ''did:ebsi:issuer'') 1000 700)))
          (example_resolve (resolution_result [JStr ''key-1''])) example_verify 1000 ''h.p.sig''
          no_audience)
     = Inl (AssertionError ''Expired JWT'')
   \<and> snd (verify_jwt (example_codec JNull (JObj (claims (JStr ''did:ebsi:issuer'') 1000 701)))
          (example_resolve (resolution_result [JStr ''key-1''])) example_verify 1000 ''h.p.sig''
          no_audience)
     = Inr (JObj (claims (JStr ''did:ebsi:issuer'') 1000 701),
            resolution_result [JStr ''key-1''], JStr ''did:ebsi:issuer'', JStr ''key-1'',
            ''h.p.sig'')
   \<and> snd (verify_jwt (example_codec JNull (JObj (claims (JStr ''did:ebsi:issuer'') 1301 1600)))
          (example_resolve (resolution_result [JStr ''key-1''])) example_verify 1000 ''h.p.sig''
          no_audience)
     = Inl (AssertionError ''Issue time is in the future'')
   \<and> snd (verify_jwt (example_codec JNull (JObj (claims (JStr ''did:ebsi:issuer'') 1300 1600)))
          (example_resolve (resolution_result [JStr ''key-1''])) example_verify 1000 ''h.p.sig''
          no_audience)
     = Inr (JObj (claims (JStr ''did:ebsi:issuer'') 1300 1600),
            resolution_result [JStr ''key-1''], JStr ''did:ebsi:issuer'', JStr ''key-1'',
            ''h.p.sig'')"
proof -
  have run: "snd (verify_jwt (example_codec JNull (JObj (claims (JStr ''did:ebsi:issuer'') i x)))
                 (example_resolve (resolution_result [JStr ''key-1''])) example_verify 1000
                 ''h.p.sig'' no_audience)
             = (if i > 1000 + 300 then Inl (AssertionError ''Issue time is in the future'')
                else if x \<le> 1000 - 300 then Inl (AssertionError ''Expired JWT'')
                else Inr (JObj (claims (JStr ''did:ebsi:issuer'') i x),
                          resolution_result [JStr ''key-1''], JStr ''did:ebsi:issuer'',
                          JStr ''key-1'', ''h.p.sig''))" for i x
  proof -
    let ?p = "JObj (claims (JStr ''did:ebsi:issuer'') i x)"
    let ?d = "\<lparr>header = JNull, payload = ?p, signature = ''sig'', data = ''h.p''\<rparr>"
    have 1: "decode_jwt (example_codec JNull ?p) ''h.p.sig'' = Inr ?d"
      by (rule example_decode)
    have 2: "subject_did (payload ?d) (header ?d) = Inr (JStr ''did:ebsi:issuer'')"
      by (simp add: subject_did_def py_get_def claims_def)
    have 3: "example_resolve (resolution_result [JStr ''key-1'']) (JStr ''did:ebsi:issuer'')
               no_audience = Inr (resolution_result [JStr ''key-1''])"
      by (simp add: example_resolve_def)
    have 4: "first_verification_method (resolution_result [JStr ''key-1'']) = Inr (JStr ''key-1'')"
      by (rule example_first_method)
    have 5: "example_verify (data ?d) (signature ?d) (JStr ''key-1'') = Inr True"
      by (simp add: example_verify_def)
    have 6: "py_get (payload ?d) ''iat'' = Inr (JInt i)"
      by (simp add: py_get_def claims_def)
    have 7: "py_num (JInt i) = Inr i"
      by (simp add: py_num_def)
    have 8: "py_get (payload ?d) ''exp'' = Inr (JInt x)"
      by (simp add: py_get_def claims_def)
    have 9: "py_num (JInt x) = Inr x"
      by (simp add: py_num_def)
    have 10: "check_audience ?p (audience no_audience) = Inr ()"
      by (simp add: check_audience_def py_get_def claims_def truthy_def)
    show ?thesis
      using temporal_validation
              [where resolve = "example_resolve (resolution_result [JStr ''key-1''])"
                 and verify_ES256K = example_verify and now = 1000, OF 1 2 3 4 5 6 7 8 9]
      by (simp add: 10)
  qed
  show ?thesis
    by (simp add: run)
qed

subsection \<open>Merge precedence in token creation\<close>

text \<open>
  C3. For every payload, issuer, signer and header, \<open>create_jwt\<close> hands to \<open>create_jws\<close>
  the given signer and header together with the merged claims, and the merged claims
  are these: \<open>iss\<close> is the issuer of the options, whatever the payload says; any other
  key of the payload has the payload's value, also \<open>iat\<close> and \<open>exp\<close>; if the payload
  has none, \<open>iat\<close> is the clock reading and \<open>exp\<close> is the clock reading plus 300; and
  there is no other key.
\<close>

theorem create_jwt_merge:
  assumes "issuer opts = Some iss" and "signer opts = Some sign"
  shows "create_jwt C now pl opts hdr = create_jws C (JObj (full_payload now pl iss)) sign hdr
       \<and> fmlookup (full_payload now pl iss) k =
           (if k = ''iss'' then Some iss
            else if k |\<in>| fmdom pl then fmlookup pl k
            else if k = ''iat'' then Some (JInt now)
            else if k = ''exp'' then Some (JInt (now + 300))
            else None)"
  using assms by (simp add: create_jwt_def full_payload_lookup)

theorem create_jwt_merge_witness:
  "create_jwt (example_codec example_header JNull) 1000
     (fmupd ''iss'' (JStr ''did:other'') (fmupd ''iat'' (JInt 5) fmempty))
     \<lparr>issuer = Some (JStr ''did:ebsi:issuer''), signer = Some example_sign\<rparr> example_header
     = create_jws (example_codec example_header JNull)
         (JObj (full_payload 1000
                  (fmupd ''iss'' (JStr ''did:other'') (fmupd ''iat'' (JInt 5) fmempty))
                  (JStr ''did:ebsi:issuer'')))
         example_sign example_header
   \<and> fmlookup (full_payload 1000
                  (fmupd ''iss'' (JStr ''did:other'') (fmupd ''iat'' (JInt 5) fmempty))
                  (JStr ''did:ebsi:issuer'')) ''iss''
       = Some (JStr ''did:ebsi:issuer'')
   \<and> fmlookup (full_payload 1000
                  (fmupd ''iss'' (JStr ''did:other'') (fmupd ''iat'' (JInt 5) fmempty))
                  (JStr ''did:ebsi:issuer'')) ''iat''
       = Some (JInt 5)
   \<and> fmlookup (full_payload 1000
                  (fmupd ''iss'' (JStr ''did:other'') (fmupd ''iat'' (JInt 5) fmempty))
                  (JStr ''did:ebsi:issuer'')) ''exp''
       = Some (JInt 1300)"
proof -
  let ?pl = "fmupd ''iss'' (JStr ''did:other'') (fmupd ''iat'' (JInt 5) fmempty)
               :: (string, json) fmap"
  let ?opts = "\<lparr>issuer = Some (JStr ''did:ebsi:issuer''), signer = Some example_sign\<rparr>"
  have 1: "issuer ?opts = Some (JStr ''did:ebsi:issuer'')"
    and 2: "signer ?opts = Some example_sign"
    by simp_all
  note m = create_jwt_merge [OF 1 2, of "example_codec example_header JNull" 1000 ?pl example_header]
  show ?thesis
    using m [of "''iss''"] m [of "''iat''"] m [of "''exp''"] by simp
qed

subsection \<open>The DID of the subject\<close>

text \<open>
  C4. Let the token parse, and let \<open>iss\<close>, \<open>sub\<close> and \<open>sub_jwk\<close> be what
  \<open>payload.get\<close> returns for these keys (\<open>None\<close> for a key that is missing or bound to
  null: the code tests \<open>is None\<close>). Without \<open>iss\<close> the token is rejected with "Missing
  issuer" and no capability is called. For the self-issued issuer, a token without
  \<open>sub\<close> is rejected with "Missing subject"; otherwise the DID handed to the resolver
  is \<open>sub\<close> when \<open>sub_jwk\<close> is absent, and else the part of the header's \<open>kid\<close> string
  before the first \<open>#\<close>. For every other issuer the DID handed to the resolver is
  \<open>iss\<close>.
\<close>

theorem subject_did_determined:
  assumes "decode_jwt C jwt = Inr d"
    and "py_get (payload d) ''iss'' = Inr iss"
    and "py_get (payload d) ''sub'' = Inr sub"
    and "py_get (payload d) ''sub_jwk'' = Inr sub_jwk"
  shows "if iss = JNull
         then verify_jwt C resolve verify_ES256K now jwt cfg
                = ([], Inl (AssertionError ''Missing issuer''))
         else if iss \<noteq> JStr ''https://self-issued.me/v2''
         then \<exists>rest. fst (verify_jwt C resolve verify_ES256K now jwt cfg)
                       = Resolve iss cfg # rest
         else if sub = JNull
         then verify_jwt C resolve verify_ES256K now jwt cfg
                = ([], Inl (AssertionError ''Missing subject''))
         else if sub_jwk = JNull
         then \<exists>rest. fst (verify_jwt C resolve verify_ES256K now jwt cfg)
                       = Resolve sub cfg # rest
         else \<forall>kid. py_get (header d) ''kid'' = Inr (JStr kid) \<longrightarrow>
                (\<exists>rest. fst (verify_jwt C resolve verify_ES256K now jwt cfg)
                   = Resolve (JStr (takeWhile (\<lambda>c. c \<noteq> CHR ''#'') kid)) cfg # rest)"
proof -
  note did = subject_did_eq [OF assms(2-4), of "header d"]
  note err = verify_jwt_did_error [OF assms(1), of _ resolve verify_ES256K now cfg]
  note call = verify_jwt_first_call [OF assms(1), of _ resolve verify_ES256K now cfg]
  consider (a) "iss = JNull"
    | (b) "iss \<noteq> JNull" "iss \<noteq> JStr ''https://self-issued.me/v2''"
    | (c) "iss = JStr ''https://self-issued.me/v2''" "sub = JNull"
    | (d) "iss = JStr ''https://self-issued.me/v2''" "sub \<noteq> JNull" "sub_jwk = JNull"
    | (e) "iss = JStr ''https://self-issued.me/v2''" "sub \<noteq> JNull" "sub_jwk \<noteq> JNull"
    by blast
  then show ?thesis
  proof cases
    case a
    then show ?thesis using did err by simp
  next
    case b
    then show ?thesis using did call [of iss] by simp
  next
    case c
    then show ?thesis using did err by simp
  next
    case d
    then show ?thesis using did call [of sub] by simp
  next
    case e
    have "\<exists>rest. fst (verify_jwt C resolve verify_ES256K now jwt cfg)
                   = Resolve (JStr (takeWhile (\<lambda>c. c \<noteq> CHR ''#'') kid)) cfg # rest"
      if "py_get (header d) ''kid'' = Inr (JStr kid)" for kid
      using e did that call [of "JStr (takeWhile (\<lambda>c. c \<noteq> CHR ''#'') kid)"]
      by (simp add: py_split_first_str)
    with e show ?thesis by simp
  qed
qed

theorem subject_did_determined_witness:
  "(\<exists>rest. fst (verify_jwt
                  (example_codec (JObj (fmupd ''kid'' (JStr ''did:x:2#key-1'') fmempty))
                     (JObj (fmupd ''sub_jwk'' (JStr ''jwk'') self_issued)))
                  (example_resolve (resolution_result [JStr ''key-1''])) example_verify 1000
                  ''h.p.sig'' no_audience)
            = Resolve (JStr ''did:x:2'') no_audience # rest)
   \<and> (\<exists>rest. fst (verify_jwt (example_codec example_header (JObj self_issued))
                  (example_resolve (resolution_result [JStr ''key-1''])) example_verify 1000
                  ''h.p.sig'' no_audience)
            = Resolve (JStr ''did:x:1'') no_audience # rest)"
proof -
  let ?R = "example_resolve (resolution_result [JStr ''key-1''])"
  let ?h = "JObj (fmupd ''kid'' (JStr ''did:x:2#key-1'') fmempty)"
  let ?p = "JObj (fmupd ''sub_jwk'' (JStr ''jwk'') self_issued)"
  let ?d = "\<lparr>header = ?h, payload = ?p, signature = ''sig'', data = ''h.p''\<rparr>"
  let ?d' = "\<lparr>header = example_header, payload = JObj self_issued, signature = ''sig'',
              data = ''h.p''\<rparr>"
  have 1: "decode_jwt (example_codec ?h ?p) ''h.p.sig'' = Inr ?d"
    by (rule example_decode)
  have 2: "py_get (payload ?d) ''iss'' = Inr (JStr ''https://self-issued.me/v2'')"
    and 3: "py_get (payload ?d) ''sub'' = Inr (JStr ''did:x:1'')"
    and 4: "py_get (payload ?d) ''sub_jwk'' = Inr (JStr ''jwk'')"
    and 5: "py_get (header ?d) ''kid'' = Inr (JStr ''did:x:2#key-1'')"
    by (simp_all add: py_get_def self_issued_def claims_def)
  have e1: "decode_jwt (example_codec example_header (JObj self_issued)) ''h.p.sig'' = Inr ?d'"
    by (rule example_decode)
  have e2: "py_get (payload ?d') ''iss'' = Inr (JStr ''https://self-issued.me/v2'')"
    and e3: "py_get (payload ?d') ''sub'' = Inr (JStr ''did:x:1'')"
    and e4: "py_get (payload ?d') ''sub_jwk'' = Inr JNull"
    by (simp_all add: py_get_def self_issued_def claims_def)
  show ?thesis
    using subject_did_determined [OF 1 2 3 4, of ?R example_verify 1000 no_audience] 5
          subject_did_determined [OF e1 e2 e3 e4, of ?R example_verify 1000 no_audience]
    by simp
qed

subsection \<open>Malformed tokens\<close>



subsection \<open>Verification methods\<close>



subsection \<open>The signing input\<close>

text \<open>
  C7. \<open>create_jws\<close> calls the signer exactly once, on encoded header, dot, encoded
  payload, and returns that same string, a dot, and the signature without padding
  characters. Whenever \<open>verify_jwt\<close> calls the verifier, for whatever codec, the data it
  passes are the first two segments of the received token joined by a dot, and the
  signature is the third segment: nothing is encoded again from the parsed values.
\<close>

theorem signing_input_as_transmitted:
  "create_jws C pl sign hdr =
     ([Sign (encode_segment C hdr @ ''.'' @ encode_segment C pl)],
      case sign (encode_segment C hdr @ ''.'' @ encode_segment C pl) of
        Inl x \<Rightarrow> Inl (Propagated x)
      | Inr sg \<Rightarrow>
          Inr ((encode_segment C hdr @ ''.'' @ encode_segment C pl) @ ''.'' @ strip_padding sg))
   \<and> (\<forall>dat sg a. Verify dat sg a \<in> set (fst (verify_jwt C resolve verify_ES256K now jwt cfg))
         \<longrightarrow> (\<exists>p0 p1. str_split CHR ''.'' jwt = [p0, p1, sg] \<and> dat = p0 @ ''.'' @ p1))"
proof (intro conjI allI impI)
  show "create_jws C pl sign hdr =
     ([Sign (encode_segment C hdr @ ''.'' @ encode_segment C pl)],
      case sign (encode_segment C hdr @ ''.'' @ encode_segment C pl) of
        Inl x \<Rightarrow> Inl (Propagated x)
      | Inr sg \<Rightarrow>
          Inr ((encode_segment C hdr @ ''.'' @ encode_segment C pl) @ ''.'' @ strip_padding sg))"
    by (rule create_jws_eq)
next
  fix dat sg a
  assume "Verify dat sg a \<in> set (fst (verify_jwt C resolve verify_ES256K now jwt cfg))"
  then obtain d where "decode_jwt C jwt = Inr d" and "dat = data d" and "sg = signature d"
    using verify_jwt_calls [of C resolve verify_ES256K now jwt cfg] by auto
  then show "\<exists>p0 p1. str_split CHR ''.'' jwt = [p0, p1, sg] \<and> dat = p0 @ ''.'' @ p1"
    using decode_jwt_Inr [of C jwt d] by auto
qed

theorem signing_input_as_transmitted_witness:
  "create_jws (example_codec example_header JNull)
     (JObj (claims (JStr ''did:ebsi:issuer'') 1000 1300)) example_sign example_header
   = ([Sign ''h.p''], Inr ''h.p.sig'')
   \<and> Verify ''h.p'' ''sig'' (JStr ''key-1'')
       \<in> set (fst (verify_jwt
                     (example_codec example_header
                        (JObj (claims (JStr ''did:ebsi:issuer'') 1000 1300)))
                     (example_resolve (resolution_result [JStr ''key-1''])) example_verify 1000
                     ''h.p.sig'' no_audience))
   \<and> (\<exists>p0 p1. str_split CHR ''.'' ''h.p.sig'' = [p0, p1, ''sig''] \<and> ''h.p'' = p0 @ ''.'' @ p1)"
proof -
  let ?p = "JObj (claims (JStr ''did:ebsi:issuer'') 1000 1300)"
  let ?C = "example_codec example_header ?p"
  let ?R = "example_resolve (resolution_result [JStr ''key-1''])"
  let ?d = "\<lparr>header = example_header, payload = ?p, signature = ''sig'', data = ''h.p''\<rparr>"
  note t = signing_input_as_transmitted
  have h: "encode_segment (example_codec example_header JNull) example_header = ''h''"
    by (simp add: encode_segment_def example_codec_def strip_padding_def py_get_def
                  example_header_def)
  have p: "encode_segment (example_codec example_header JNull) ?p = ''p''"
    by (simp add: encode_segment_def example_codec_def strip_padding_def py_get_def claims_def)
  have a: "create_jws (example_codec example_header JNull) ?p example_sign example_header
             = ([Sign ''h.p''], Inr ''h.p.sig'')"
    using t [of "example_codec example_header JNull" ?p example_sign example_header]
    by (simp add: h p example_sign_def strip_padding_def)
  have 1: "decode_jwt ?C ''h.p.sig'' = Inr ?d"
    by (rule example_decode)
  have 2: "subject_did (payload ?d) (header ?d) = Inr (JStr ''did:ebsi:issuer'')"
    by (simp add: example_issuer_did claims_def)
  have b: "Verify ''h.p'' ''sig'' (JStr ''key-1'')
             \<in> set (fst (verify_jwt ?C ?R example_verify 1000 ''h.p.sig'' no_audience))"
    by (simp add: verify_jwt_def 1 2 [simplified] example_resolve_def example_first_method
                  example_verify_def Let_def split: sum.splits)
  have c: "\<exists>p0 p1. str_split CHR ''.'' ''h.p.sig'' = [p0, p1, ''sig''] \<and> ''h.p'' = p0 @ ''.'' @ p1"
    using t [of ?C ?p example_sign example_header ?R example_verify 1000 "''h.p.sig''" no_audience] b
    by blast
  from a b c show ?thesis by blast
qed

subsection \<open>Audience\<close>

text \<open>
  C8 as stated fails in two ways. A payload has the claim \<open>aud\<close>, bound to the empty
  string, the audience \<open>a\<close> is configured, the two differ, and the token is accepted.
  A payload has the claim \<open>aud\<close>, bound to \<open>c\<close>, the audience configured is the empty
  list, of which \<open>c\<close> is no element, and the token is accepted.
\<close>

theorem empty_audience_claim_accepted:
  "fmlookup (with_aud (JStr '''')) ''aud'' = Some (JStr '''')
   \<and> audience (expects (AudStr ''a'')) = Some (AudStr ''a'')
   \<and> JStr '''' \<noteq> JStr ''a''
   \<and> snd (verify_jwt (example_codec example_header (JObj (with_aud (JStr ''''))))
          (example_resolve (resolution_result [JStr ''key-1''])) example_verify 1000 ''h.p.sig''
          (expects (AudStr ''a'')))
     = Inr (JObj (with_aud (JStr '''')), resolution_result [JStr ''key-1''],
            JStr ''did:ebsi:issuer'', JStr ''key-1'', ''h.p.sig'')
   \<and> fmlookup (with_aud (JStr ''c'')) ''aud'' = Some (JStr ''c'')
   \<and> audience (expects (AudList [])) = Some (AudList [])
   \<and> JStr ''c'' \<notin> JStr ` set []
   \<and> snd (verify_jwt (example_codec example_header (JObj (with_aud (JStr ''c''))))
          (example_resolve (resolution_result [JStr ''key-1''])) example_verify 1000 ''h.p.sig''
          (expects (AudList [])))
     = Inr (JObj (with_aud (JStr ''c'')), resolution_result [JStr ''key-1''],
            JStr ''did:ebsi:issuer'', JStr ''key-1'', ''h.p.sig'')"
proof -
  have "check_audience (payload (example_decoded (JStr ''''))) (Some (AudStr ''a'')) = Inr ()"
    by (simp add: check_audience_def example_stages(7) truthy_def)
  then have 1: "snd (verify_jwt (example_codec example_header (JObj (with_aud (JStr ''''))))
          (example_resolve (resolution_result [JStr ''key-1''])) example_verify 1000 ''h.p.sig''
          (expects (AudStr ''a'')))
        = Inr (payload (example_decoded (JStr '''')), resolution_result [JStr ''key-1''],
                JStr ''did:ebsi:issuer'', JStr ''key-1'', ''h.p.sig'')"
    by (simp add: verify_jwt_def example_stages expects_def)
  have "check_audience (payload (example_decoded (JStr ''c''))) (Some (AudList [])) = Inr ()"
    by (simp add: check_audience_def example_stages(7) truthy_def aud_truthy_def)
  then have 2: "snd (verify_jwt (example_codec example_header (JObj (with_aud (JStr ''c''))))
          (example_resolve (resolution_result [JStr ''key-1''])) example_verify 1000 ''h.p.sig''
          (expects (AudList [])))
        = Inr (payload (example_decoded (JStr ''c'')), resolution_result [JStr ''key-1''],
                JStr ''did:ebsi:issuer'', JStr ''key-1'', ''h.p.sig'')"
    by (simp add: verify_jwt_def example_stages expects_def)
  from 1 2 show ?thesis
    by (simp add: with_aud_def expects_def example_decoded_def)
qed

text \<open>
  C8, amended. For a token that passed the signature check and the temporal checks:
  when \<open>aud\<close> is truthy (present and not null, false, zero or empty) and the configured
  audience is truthy (set, and not the empty string or the empty list), \<open>aud\<close> must be
  an element of the audience when that is a list, and equal to it when that is a
  string, and the token is rejected with "Invalid audience" otherwise. In every other
  case, in particular when no audience is configured, the token is accepted whatever
  \<open>aud\<close> is.
\<close>

theorem audience_validation:
  assumes "decode_jwt C jwt = Inr d"
    and "subject_did (payload d) (header d) = Inr did"
    and "resolve did cfg = Inr r"
    and "first_verification_method r = Inr a"
    and "verify_ES256K (data d) (signature d) a = Inr True"
    and "check_times (payload d) now = Inr ()"
    and "py_get (payload d) ''aud'' = Inr aud"
  shows "snd (verify_jwt C resolve verify_ES256K now jwt cfg) =
           (case audience cfg of
              None \<Rightarrow> Inr (payload d, r, did, a, jwt)
            | Some (AudStr s) \<Rightarrow>
                if truthy aud \<and> s \<noteq> [] \<and> aud \<noteq> JStr s
                then Inl (AssertionError ''Invalid audience'')
                else Inr (payload d, r, did, a, jwt)
            | Some (AudList l) \<Rightarrow>
                if truthy aud \<and> l \<noteq> [] \<and> aud \<notin> JStr ` set l
                then Inl (AssertionError ''Invalid audience'')
                else Inr (payload d, r, did, a, jwt))"
  using verify_jwt_validation
          [where resolve = resolve and verify_ES256K = verify_ES256K, OF assms(1-5), of now]
  by (simp add: assms(6) check_audience_eq [OF assms(7)] split: option.splits audience.splits)

theorem audience_validation_witness:
  "snd (verify_jwt (example_codec example_header (JObj (with_aud (JStr ''a''))))
          (example_resolve (resolution_result [JStr ''key-1''])) example_verify 1000 ''h.p.sig''
          (expects (AudList [''a'', ''b''])))
     = Inr (JObj (with_aud (JStr ''a'')), resolution_result [JStr ''key-1''],
            JStr ''did:ebsi:issuer'', JStr ''key-1'', ''h.p.sig'')
   \<and> snd (verify_jwt (example_codec example_header (JObj (with_aud (JStr ''c''))))
          (example_resolve (resolution_result [JStr ''key-1''])) example_verify 1000 ''h.p.sig''
          (expects (AudList [''a'', ''b''])))
     = Inl (AssertionError ''Invalid audience'')
   \<and> snd (verify_jwt (example_codec example_header (JObj (with_aud (JStr ''c''))))
          (example_resolve (resolution_result [JStr ''key-1''])) example_verify 1000 ''h.p.sig''
          no_audience)
     = Inr (JObj (with_aud (JStr ''c'')), resolution_result [JStr ''key-1''],
            JStr ''did:ebsi:issuer'', JStr ''key-1'', ''h.p.sig'')"
proof -
  note run = audience_validation
               [where resolve = "example_resolve (resolution_result [JStr ''key-1''])"
                  and verify_ES256K = example_verify and now = 1000, OF example_stages]
  show ?thesis
    using run [of "JStr ''a''" "expects (AudList [''a'', ''b''])"]
          run [of "JStr ''c''" "expects (AudList [''a'', ''b''])"]
          run [of "JStr ''c''" no_audience]
    by (simp add: expects_def no_audience_def truthy_def example_decoded_def)
qed

text \<open>
  C9. Let the payload of a token have the key \<open>aud\<close> bound to a falsy value (the empty
  string, 0 and null are falsy, as are false and the empty list and dict). Then, whatever
  audience is configured, \<open>verify_jwt\<close> does not end with "Invalid audience", and if
  the steps before the audience check pass, the token is accepted.
\<close>

theorem falsy_audience_claim_skipped:
  assumes "decode_jwt C jwt = Inr d"
    and "payload d = JObj m"
    and "fmlookup m ''aud'' = Some aud"
    and "\<not> truthy aud"
  shows "snd (verify_jwt C resolve verify_ES256K now jwt cfg)
           \<noteq> Inl (AssertionError ''Invalid audience'')
       \<and> (subject_did (payload d) (header d) = Inr did
            \<and> resolve did cfg = Inr r
            \<and> first_verification_method r = Inr a
            \<and> verify_ES256K (data d) (signature d) a = Inr True
            \<and> check_times (payload d) now = Inr ()
          \<longrightarrow> verify_jwt C resolve verify_ES256K now jwt cfg
                = ([Resolve did cfg, Verify (data d) (signature d) a],
                   Inr (payload d, r, did, a, jwt)))"
proof (intro conjI impI)
  have get: "py_get (payload d) ''aud'' = Inr aud"
    using assms(2,3) by (simp add: py_get_def)
  have skipped: "check_audience (payload d) ac = Inr ()" for ac
    using get assms(4) by (rule check_audience_falsy)
  show "snd (verify_jwt C resolve verify_ES256K now jwt cfg)
          \<noteq> Inl (AssertionError ''Invalid audience'')"
  proof
    assume "snd (verify_jwt C resolve verify_ES256K now jwt cfg)
              = Inl (AssertionError ''Invalid audience'')"
    from verify_jwt_Inl [OF this] show False
      using assms(1) skipped
      by (auto dest: subject_did_errors first_verification_method_errors check_times_errors)
  qed
  assume "subject_did (payload d) (header d) = Inr did
            \<and> resolve did cfg = Inr r
            \<and> first_verification_method r = Inr a
            \<and> verify_ES256K (data d) (signature d) a = Inr True
            \<and> check_times (payload d) now = Inr ()"
  then show "verify_jwt C resolve verify_ES256K now jwt cfg
                = ([Resolve did cfg, Verify (data d) (signature d) a],
                   Inr (payload d, r, did, a, jwt))"
    using verify_jwt_validation
            [where resolve = resolve and verify_ES256K = verify_ES256K, OF assms(1), of did cfg r a now]
    by (simp add: skipped)
qed

theorem falsy_audience_claim_skipped_witness:
  "\<not> truthy (JInt 0)
   \<and> verify_jwt (example_codec example_header (JObj (with_aud (JInt 0))))
       (example_resolve (resolution_result [JStr ''key-1''])) example_verify 1000 ''h.p.sig''
       (expects (AudList [''a'', ''b'']))
     = ([Resolve (JStr ''did:ebsi:issuer'') (expects (AudList [''a'', ''b''])),
         Verify ''h.p'' ''sig'' (JStr ''key-1'')],
        Inr (JObj (with_aud (JInt 0)), resolution_result [JStr ''key-1''],
             JStr ''did:ebsi:issuer'', JStr ''key-1'', ''h.p.sig''))"
proof -
  have 2: "payload (example_decoded (JInt 0)) = JObj (with_aud (JInt 0))"
    by (simp add: example_decoded_def)
  have 3: "fmlookup (with_aud (JInt 0)) ''aud'' = Some (JInt 0)"
    by (simp add: with_aud_def)
  have 4: "\<not> truthy (JInt 0)"
    by (simp add: truthy_def)
  show ?thesis
    using falsy_audience_claim_skipped
            [where resolve = "example_resolve (resolution_result [JStr ''key-1''])"
               and verify_ES256K = example_verify and now = 1000
               and cfg = "expects (AudList [''a'', ''b''])"
               and did = "JStr ''did:ebsi:issuer''"
               and r = "resolution_result [JStr ''key-1'']" and a = "JStr ''key-1''",
             OF example_stages(1) 2 3 4]
          4
    by (simp add: example_stages) (simp add: example_decoded_def)
qed

subsection \<open>A self-issued token without key id\<close>

text \<open>
  C10. For a self-issued token whose payload has \<open>sub\<close> and \<open>sub_jwk\<close> (bound to values
  other than null, which the code treats as missing) and whose header has no \<open>kid\<close>,
  \<open>verify_jwt\<close> ends with \<open>AttributeError\<close>, which none of its assertions raises, and
  the resolver is not called.
\<close>

theorem missing_kid:
  assumes "decode_jwt C jwt = Inr d"
    and "payload d = JObj m"
    and "fmlookup m ''iss'' = Some (JStr ''https://self-issued.me/v2'')"
    and "fmlookup m ''sub'' = Some sub" and "sub \<noteq> JNull"
    and "fmlookup m ''sub_jwk'' = Some sub_jwk" and "sub_jwk \<noteq> JNull"
    and "header d = JObj h"
    and "fmlookup h ''kid'' = None"
  shows "verify_jwt C resolve verify_ES256K now jwt cfg = ([], Inl AttributeError)"
  using assms
  by (simp add: verify_jwt_def subject_did_def py_get_def py_split_first_def)

theorem missing_kid_witness:
  "verify_jwt (example_codec example_header (JObj (fmupd ''sub_jwk'' (JStr ''jwk'') self_issued)))
     (example_resolve (resolution_result [JStr ''key-1''])) example_verify 1000 ''h.p.sig''
     no_audience
   = ([], Inl AttributeError)"
proof -
  let ?m = "fmupd ''sub_jwk'' (JStr ''jwk'') self_issued"
  let ?hm = "fmupd ''alg'' (JStr ''ES256K'') (fmupd ''typ'' (JStr ''JWT'') fmempty)
               :: (string, json) fmap"
  let ?d = "\<lparr>header = example_header, payload = JObj ?m, signature = ''sig'',
             data = ''h.p''\<rparr>"
  have 1: "decode_jwt (example_codec example_header (JObj ?m)) ''h.p.sig'' = Inr ?d"
    by (rule example_decode)
  have 2: "payload ?d = JObj ?m" and 8: "header ?d = JObj ?hm"
    by (simp_all add: example_header_def)
  have 3: "fmlookup ?m ''iss'' = Some (JStr ''https://self-issued.me/v2'')"
    and 4: "fmlookup ?m ''sub'' = Some (JStr ''did:x:1'')"
    and 6: "fmlookup ?m ''sub_jwk'' = Some (JStr ''jwk'')"
    by (simp_all add: self_issued_def claims_def)
  have 5: "JStr ''did:x:1'' \<noteq> JNull" and 7: "JStr ''jwk'' \<noteq> JNull"
    by simp_all
  have 9: "fmlookup ?hm ''kid'' = None"
    by simp
  show ?thesis
    by (rule missing_kid [OF 1 2 3 4 5 6 7 8 9])
qed

end
